theory Spec2Isabelle
  imports Complex_Main
begin

section \<open>Data model\<close>

text \<open>
  The program works on numpy arrays of floats read from a tab separated file by pandas.
  A cell is a real number or NaN (the null of pandas): \<open>None\<close> stands for NaN. Rounding
  and infinities of floating point are not represented. A one dimensional array is a
  list of cells; a two dimensional array of shape (r, n) is a list of r rows of n cells.
\<close>

type_synonym cell = "real option"
type_synonym vec = "cell list"
type_synonym series = "cell list list"

text \<open>The dataframe that \<open>pd.read_csv\<close> returns: the header names and the rows below.\<close>

record dataframe =
  columns :: "string list"
  rows :: "cell list list"

text \<open>
  Every \<open>raise\<close> of the source, and every exception that an indexing or a library call of
  the source can throw, is a value. The source raises the plain class \<open>Exception\<close> with
  four messages; they are kept apart here.
\<close>

datatype error =
    SliceStartError        \<comment> \<open>Exception("Slice start must be positive")\<close>
  | SliceEndError          \<comment> \<open>Exception("Slice end must not exceed dataframe rows")\<close>
  | NotAcceptedFormat      \<comment> \<open>Exception("Not accepted format")\<close>
  | UnrecognizedFormat     \<comment> \<open>Exception("Unrecognized input format")\<close>
  | KeyError "string list" \<comment> \<open>a column that the dataframe does not have\<close>
  | IndexError             \<comment> \<open>an index out of range\<close>
  | UnpackError            \<comment> \<open>a tuple assignment whose right side has another length\<close>
  | HelperError string     \<comment> \<open>an exception thrown inside a function that is a parameter here\<close>
  | StationaryNotFoundError
      \<comment> \<open>no stationary interval (specification, section 7; raised in a missing module)\<close>
  | OrderingError
      \<comment> \<open>time vector not increasing (specification, section 7; raised in a missing module)\<close>

fun slice_error :: "error \<Rightarrow> bool" where
  "slice_error SliceStartError = True"
| "slice_error SliceEndError = True"
| "slice_error _ = False"

fun format_error :: "error \<Rightarrow> bool" where
  "format_error NotAcceptedFormat = True"
| "format_error UnrecognizedFormat = True"
| "format_error _ = False"

definition is_slice_error :: "error + 'a \<Rightarrow> bool" where
  "is_slice_error r = (case r of Inl e \<Rightarrow> slice_error e | Inr _ \<Rightarrow> False)"

definition is_format_error :: "error + 'a \<Rightarrow> bool" where
  "is_format_error r = (case r of Inl e \<Rightarrow> format_error e | Inr _ \<Rightarrow> False)"

definition bind_res :: "error + 'a \<Rightarrow> ('a \<Rightarrow> error + 'b) \<Rightarrow> error + 'b" where
  "bind_res m f = (case m of Inl e \<Rightarrow> Inl e | Inr x \<Rightarrow> f x)"

section \<open>Python primitives\<close>

text \<open>\<open>str.find\<close>: the lowest index at which the substring starts, or -1.\<close>

fun is_prefix :: "string \<Rightarrow> string \<Rightarrow> bool" where
  "is_prefix [] s = True"
| "is_prefix (c # cs) [] = False"
| "is_prefix (c # cs) (d # ds) = (c = d \<and> is_prefix cs ds)"

fun find_from :: "string \<Rightarrow> string \<Rightarrow> int \<Rightarrow> int" where
  "find_from sub [] i = (if sub = [] then i else - 1)"
| "find_from sub (c # cs) i = (if is_prefix sub (c # cs) then i else find_from sub cs (i + 1))"

definition find_str :: "string \<Rightarrow> string \<Rightarrow> int" where
  "find_str s sub = find_from sub s 0"

text \<open>
  A slice \<open>xs[a:b]\<close> with step 1: a missing bound is the end of the list on its side, a
  negative bound counts from the end, and every bound is clamped to the list.
\<close>

definition slice_bound :: "nat \<Rightarrow> int \<Rightarrow> nat" where
  "slice_bound n i = (if i < 0 then nat (max 0 (int n + i)) else min n (nat i))"

definition py_slice :: "'a list \<Rightarrow> int option \<Rightarrow> int option \<Rightarrow> 'a list" where
  "py_slice xs a b =
     (let n = length xs;
          lo = (case a of None \<Rightarrow> 0 | Some i \<Rightarrow> slice_bound n i);
          hi = (case b of None \<Rightarrow> n | Some j \<Rightarrow> slice_bound n j)
      in take (hi - lo) (drop lo xs))"

section \<open>input\_manager.py\<close>

datatype InputType =
    ACCELERATION | FULLINERTIAL | GNSS | GYROSCOPE
  | INERTIAL | UNMOD_FULLINERTIAL | UNMOD_INERTIAL | UNRECOGNIZED

text \<open>\<open>df.isnull().values.any()\<close>\<close>

definition isnull_any :: "dataframe \<Rightarrow> bool" where
  "isnull_any df = list_ex (list_ex (\<lambda>c. c = None)) (rows df)"

definition detect_input_type :: "dataframe \<Rightarrow> string \<Rightarrow> InputType" where
  "detect_input_type df filepath =
     (if find_str filepath ''acc'' \<noteq> - 1 then ACCELERATION
      else if find_str filepath ''gnss'' \<noteq> - 1 then GNSS
      else if find_str filepath ''gyr'' \<noteq> - 1 then GYROSCOPE
      else if find_str filepath ''unmodified-fullinertial'' \<noteq> - 1 then UNMOD_FULLINERTIAL
      else if find_str filepath ''unmodified-inertial'' \<noteq> - 1 then UNMOD_INERTIAL
      else if find_str filepath ''fullinertial'' \<noteq> - 1 then FULLINERTIAL
      else if find_str filepath ''inertial'' \<noteq> - 1 then INERTIAL
      else (let column_count = length (columns df) in
        if column_count = 4 then ACCELERATION
        else if column_count = 10 then (if isnull_any df then UNMOD_INERTIAL else INERTIAL)
        else if column_count = 14 then
          (if isnull_any df then UNMOD_FULLINERTIAL else FULLINERTIAL)
        else UNRECOGNIZED))"

text \<open>
  Column selection. \<open>df[name]\<close> and \<open>df[[n1, n2, n3]]\<close> raise KeyError for a name that is
  not a header; a row shorter than the header was padded with NaN by the reader.
\<close>

fun index_of :: "string \<Rightarrow> string list \<Rightarrow> nat option" where
  "index_of name [] = None"
| "index_of name (c # cs) =
     (if c = name then Some 0 else map_option Suc (index_of name cs))"

definition cell_at :: "cell list \<Rightarrow> nat \<Rightarrow> cell" where
  "cell_at r j = (if j < length r then r ! j else None)"

definition column :: "dataframe \<Rightarrow> string \<Rightarrow> error + vec" where
  "column df name =
     (case index_of name (columns df) of
        None \<Rightarrow> Inl (KeyError [name])
      | Some j \<Rightarrow> Inr (map (\<lambda>r. cell_at r j) (rows df)))"

text \<open>\<open>df[names].values.T\<close>: one row for each name.\<close>

definition columns_T :: "dataframe \<Rightarrow> string list \<Rightarrow> error + series" where
  "columns_T df names =
     (let missing = filter (\<lambda>n. index_of n (columns df) = None) names in
      if missing \<noteq> [] then Inl (KeyError missing)
      else Inr (map (\<lambda>n. map (\<lambda>r. cell_at r (the (index_of n (columns df)))) (rows df)) names))"

text \<open>\<open>df.dropna(subset=[name])\<close>: the rows whose cell under this name is not null.\<close>

definition dropna :: "dataframe \<Rightarrow> string \<Rightarrow> error + dataframe" where
  "dropna df name =
     (case index_of name (columns df) of
        None \<Rightarrow> Inl (KeyError [name])
      | Some j \<Rightarrow> Inr (df\<lparr>rows := filter (\<lambda>r. cell_at r j \<noteq> None) (rows df)\<rparr>))"

text \<open>What \<open>get_vectors\<close> returns: a tuple of four arrays, a tuple of six, or nothing.\<close>

datatype vectors =
    Inertial vec vec series series
      \<comment> \<open>times, gps\_speed, accelerations, angular\_velocities\<close>
  | Fullinertial vec series vec vec series series
      \<comment> \<open>times, coordinates, altitudes, gps\_speed, accelerations, angular\_velocities\<close>

text \<open>
  \<open>scipy.interpolate.interp1d\<close> is a library function and a parameter of the model:
  from the GNSS timestamps and the 3 x m array of lon, lat, alt it builds (or raises) the
  function that gives the three interpolated values at a time. A function that is a
  parameter returns \<open>Inl\<close> of a message when it raises; \<open>helper\<close> turns that into the
  error of the caller, so that it is never taken for one of the source's own errors.
\<close>

definition helper :: "string + 'a \<Rightarrow> error + 'a" where
  "helper r = (case r of Inl msg \<Rightarrow> Inl (HelperError msg) | Inr x \<Rightarrow> Inr x)"


type_synonym interp1d = "vec \<Rightarrow> series \<Rightarrow> string + (cell \<Rightarrow> cell \<times> cell \<times> cell)"

definition get_vectors ::
  "interp1d \<Rightarrow> dataframe \<Rightarrow> InputType \<Rightarrow> error + vectors option" where
  "get_vectors interp df input_type =
     (if input_type = INERTIAL \<or> input_type = UNMOD_INERTIAL then
        bind_res (columns_T df [''ax'', ''ay'', ''az'']) (\<lambda>accelerations.
        bind_res (columns_T df [''gx'', ''gy'', ''gz'']) (\<lambda>angular_velocities.
        bind_res (column df ''timestamp'') (\<lambda>times.
        bind_res (column df ''speed'') (\<lambda>gps_speed.
        Inr (Some (Inertial times gps_speed accelerations angular_velocities))))))
      else if input_type = FULLINERTIAL then
        bind_res (columns_T df [''lon'', ''lat'']) (\<lambda>coordinates.
        bind_res (column df ''alt'') (\<lambda>altitudes.
        bind_res (columns_T df [''ax'', ''ay'', ''az'']) (\<lambda>accelerations.
        bind_res (columns_T df [''gx'', ''gy'', ''gz'']) (\<lambda>angular_velocities.
        bind_res (column df ''timestamp'') (\<lambda>times.
        bind_res (column df ''speed'') (\<lambda>gps_speed.
        Inr (Some (Fullinertial times coordinates altitudes gps_speed
                     accelerations angular_velocities))))))))
      else if input_type = UNMOD_FULLINERTIAL then
        bind_res (dropna df ''lat'') (\<lambda>clean_gnss_data.
        bind_res (columns_T clean_gnss_data [''lon'', ''lat'', ''alt'']) (\<lambda>gnss_data_T.
        bind_res (column clean_gnss_data ''timestamp'') (\<lambda>gnss_data_timestamp.
        bind_res (helper (interp gnss_data_timestamp gnss_data_T)) (\<lambda>coord_func.
        bind_res (dropna df ''ax'') (\<lambda>df'.
        bind_res (columns_T df' [''ax'', ''ay'', ''az'']) (\<lambda>accelerations.
        bind_res (columns_T df' [''gx'', ''gy'', ''gz'']) (\<lambda>angular_velocities.
        bind_res (column df' ''timestamp'') (\<lambda>times.
        let coordinates =
              (if times = [] then []
               else [map (\<lambda>t. fst (coord_func t)) times,
                     map (\<lambda>t. fst (snd (coord_func t))) times]);
            altitudes = map (\<lambda>t. snd (snd (coord_func t))) times
        in bind_res (column df' ''speed'') (\<lambda>gps_speed.
        Inr (Some (Fullinertial times coordinates altitudes gps_speed
                     accelerations angular_velocities)))))))))))
      else Inr None)"

text \<open>
  \<open>parse_input\<close>. Opening the file, stripping the leading \<open>#\<close> and tab and
  \<open>pd.read_csv\<close> are the file system and pandas: the model starts from the dataframe they
  give. \<open>df[slice_start:slice_end]\<close> slices the rows.
\<close>

definition parse_input ::
  "interp1d \<Rightarrow> string \<Rightarrow> dataframe \<Rightarrow> InputType list \<Rightarrow> int option \<Rightarrow> int option
     \<Rightarrow> error + vectors option" where
  "parse_input interp filepath df accepted_types slice_start slice_end =
     (let input_type = detect_input_type df filepath in
      if input_type \<noteq> UNRECOGNIZED then
        if slice_start \<noteq> None \<and> the slice_start < 0 then Inl SliceStartError
        else if slice_end \<noteq> None \<and> \<bar>the slice_end\<bar> > int (length (rows df))
          then Inl SliceEndError
        else
          let df' = df\<lparr>rows := py_slice (rows df) slice_start slice_end\<rparr> in
          if input_type \<notin> set accepted_types then Inl NotAcceptedFormat
          else get_vectors interp df' input_type
      else Inl UnrecognizedFormat)"

text \<open>The two checks that \<open>parse_input\<close> makes on the slicing bounds, both passed.\<close>

definition slice_checks_pass :: "dataframe \<Rightarrow> int option \<Rightarrow> int option \<Rightarrow> bool" where
  "slice_checks_pass df slice_start slice_end =
     ((case slice_start of None \<Rightarrow> True | Some i \<Rightarrow> 0 \<le> i) \<and>
      (case slice_end of None \<Rightarrow> True | Some j \<Rightarrow> \<bar>j\<bar> \<le> int (length (rows df))))"


section \<open>Arithmetic on cells\<close>

text \<open>An operation with a NaN operand gives NaN.\<close>

definition add_cell :: "cell \<Rightarrow> cell \<Rightarrow> cell" where
  "add_cell a b = (case a of None \<Rightarrow> None | Some x \<Rightarrow> map_option (\<lambda>y. x + y) b)"

definition sub_cell :: "cell \<Rightarrow> cell \<Rightarrow> cell" where
  "sub_cell a b = (case a of None \<Rightarrow> None | Some x \<Rightarrow> map_option (\<lambda>y. x - y) b)"

definition less_cell :: "cell \<Rightarrow> cell \<Rightarrow> bool" where
  "less_cell a b =
     (case a of None \<Rightarrow> False
      | Some x \<Rightarrow> (case b of None \<Rightarrow> False | Some y \<Rightarrow> x < y))"

text \<open>\<open>ndarray.mean()\<close>: NaN for an empty array and for one that holds a NaN.\<close>

definition mean_cells :: "vec \<Rightarrow> cell" where
  "mean_cells xs =
     (if xs = [] \<or> list_ex (\<lambda>c. c = None) xs then None
      else Some (sum_list (map the xs) / real (length xs)))"

text \<open>\<open>np.linalg.norm(a, axis=0)\<close> of a two dimensional array: the norm of each column.\<close>

definition norm_axis0 :: "series \<Rightarrow> vec" where
  "norm_axis0 a =
     (case a of [] \<Rightarrow> []
      | r # _ \<Rightarrow> map (\<lambda>j. let col = map (\<lambda>row. cell_at row j) a in
                         if list_ex (\<lambda>c. c = None) col then None
                         else Some (sqrt (sum_list (map (\<lambda>c. (the c)\<^sup>2) col))))
                  [0..<length r])"

text \<open>\<open>a *= -1\<close> on an array.\<close>

definition negate :: "series \<Rightarrow> series" where
  "negate a = map (map (map_option (\<lambda>x. x * (- 1)))) a"

text \<open>\<open>round(w / 2)\<close> for a non-negative integer w: Python rounds a half to the even side.\<close>

definition py_round_half :: "nat \<Rightarrow> nat" where
  "py_round_half w =
     (if even w then w div 2
      else if even (w div 2) then w div 2 else w div 2 + 1)"

section \<open>Functions of the repository that are not among the sources\<close>

text \<open>
  \<open>__init__.py\<close> imports its helpers from \<open>clean_data_utils\<close>, \<open>gnss_utils\<close> and
  \<open>integrate\<close>, which are not among the sources. The helpers whose result the
  specification does not determine are parameters of the model, collected in one record;
  each returns \<open>Inl\<close> of a message when it raises. The two that work in place
  (\<open>converts_measurement_units\<close>, \<open>normalize_timestamp\<close>) return the new content of the
  arrays they were given. A helper is taken not to change its arguments otherwise.
\<close>

type_synonym intervals = "(nat \<times> nat) list"

record helpers =
  interp :: interp1d
  converts_measurement_units ::
    "series \<Rightarrow> series \<Rightarrow> vec \<Rightarrow> series \<Rightarrow> string + (series \<times> series \<times> vec \<times> series)"
  get_positions :: "series \<Rightarrow> vec \<Rightarrow> string + (series \<times> vec)"
  get_velocities :: "vec \<Rightarrow> series \<Rightarrow> string + series"
  clear_gyro_drift :: "series \<Rightarrow> intervals \<Rightarrow> string + series"
  normalize_timestamp :: "vec \<Rightarrow> string + vec"
  correct_z_orientation :: "series \<Rightarrow> series \<Rightarrow> intervals \<Rightarrow> string + (series \<times> series)"
  correct_xy_orientation :: "series \<Rightarrow> series \<Rightarrow> string + series"
  rotate_accelerations :: "vec \<Rightarrow> series \<Rightarrow> series \<Rightarrow> string + series"
  align_to_world :: "series \<Rightarrow> series \<Rightarrow> intervals \<Rightarrow> string + series"
  sign_inversion_is_necessary :: "series \<Rightarrow> string + bool"
  quadrature :: "vec \<Rightarrow> vec \<Rightarrow> nat \<Rightarrow> cell"
  speed_threshold :: real
  minimum_duration :: nat

subsection \<open>reduce\_disturbance\<close>

text \<open>
  Modelled from the spec: part of \<open>reduce_disturbance\<close>, which is missing. Section 4.2:
  the output is shorter than the input by w, the samples trimmed from the two ends: half
  of w, rounded down, from the front and the rest of w from the back, which is w/2 from
  each end for an even w.
\<close>

definition trim_ends :: "nat \<Rightarrow> 'a list \<Rightarrow> 'a list" where
  "trim_ends w xs = take (length xs - w) (drop (w div 2) xs)"

text \<open>
  Modelled from the spec: part of \<open>reduce_disturbance\<close>, which is missing. Section 4.2:
  each output sample is the mean of the input over a window of size w centred at its
  index; the windows at the edges are discarded, so the indices that remain are those
  that \<open>trim_ends\<close> keeps.
\<close>

definition moving_average :: "nat \<Rightarrow> vec \<Rightarrow> vec" where
  "moving_average w row =
     map (\<lambda>i. mean_cells (take w (drop (i - w div 2) row)))
       [w div 2 ..< w div 2 + (length row - w)]"

text \<open>
  Modelled from the spec: \<open>reduce_disturbance\<close> of \<open>clean_data_utils\<close> is missing.
  Section 4.2: a moving average over a centred window of size W for each axis on its own;
  the output is shorter than the input by W (W/2 trimmed from each end), because the
  windows at the edges are discarded, and the time vector is trimmed in the same way and
  returned. For the W of the pipeline, 20, these are the 10 samples at each end that the
  caller removes from the GNSS positions "to match" (line 61 of \<open>__init__.py\<close>).
\<close>

definition reduce_disturbance :: "vec \<Rightarrow> series \<Rightarrow> nat \<Rightarrow> vec \<times> series" where
  "reduce_disturbance times_arr vectors window_dimension =
     (trim_ends window_dimension times_arr,
      map (moving_average window_dimension) vectors)"

subsection \<open>get\_stationary\_times\<close>

text \<open>
  Modelled from the spec: part of \<open>get_stationary_times\<close>, which is missing. Section
  4.3: the consecutive indices whose sample satisfies p (is stationary) are grouped into
  intervals [start, end), in their order. The scan is at index i, inside the run that
  began at s when there is one.
\<close>

fun runs_below :: "(cell \<Rightarrow> bool) \<Rightarrow> vec \<Rightarrow> nat \<Rightarrow> nat option \<Rightarrow> intervals" where
  "runs_below p [] i None = []"
| "runs_below p [] i (Some s) = [(s, i)]"
| "runs_below p (x # xs) i None =
     (if p x then runs_below p xs (Suc i) (Some i) else runs_below p xs (Suc i) None)"
| "runs_below p (x # xs) i (Some s) =
     (if p x then runs_below p xs (Suc i) (Some s) else (s, i) # runs_below p xs (Suc i) None)"

text \<open>
  Modelled from the spec: part of \<open>get_stationary_times\<close>, which is missing. Section
  4.3: a sample is stationary when it is below the speed threshold, and the intervals
  shorter than the minimum duration, counted in samples, are discarded.
\<close>

definition qualifying_intervals :: "real \<Rightarrow> nat \<Rightarrow> vec \<Rightarrow> intervals" where
  "qualifying_intervals threshold duration speeds =
     filter (\<lambda>(s, e). duration \<le> e - s)
       (runs_below (\<lambda>v. less_cell v (Some threshold)) speeds 0 None)"

text \<open>
  Modelled from the spec: \<open>get_stationary_times\<close> of \<open>clean_data_utils\<close> is missing.
  Sections 4.3, 6 and 7: the ordered list of the qualifying intervals; when there is none
  the run fails with StationaryNotFoundError. The threshold and the minimum duration are
  constants of the missing module and parameters here.
\<close>

definition get_stationary_times :: "real \<Rightarrow> nat \<Rightarrow> vec \<Rightarrow> error + intervals" where
  "get_stationary_times threshold duration speeds =
     (let found = qualifying_intervals threshold duration speeds in
      if found = [] then Inl StationaryNotFoundError else Inr found)"

subsection \<open>simps\_integrate\<close>

text \<open>
  Modelled from the spec: part of \<open>simps_integrate\<close>, which is missing. Section 4.9: the
  time vector must be strictly increasing. A NaN is in no order with anything.
\<close>

definition strictly_increasing :: "vec \<Rightarrow> bool" where
  "strictly_increasing ts = sorted_wrt less_cell ts"

text \<open>
  Modelled from the spec: part of \<open>simps_integrate\<close>, which is missing. Section 4.9: with
  an adjust series and an adjust frequency f, every f-th sample is an anchor, and its
  value is the reference value of that sample. The reference is indexed like the series,
  as in both calls of the pipeline; a sample that the reference does not have is no anchor.
\<close>

definition anchor :: "vec option \<Rightarrow> nat option \<Rightarrow> nat \<Rightarrow> cell option" where
  "anchor adjust_row adjust_frequency i =
     (case adjust_row of None \<Rightarrow> None
      | Some r \<Rightarrow> (case adjust_frequency of None \<Rightarrow> None
          | Some f \<Rightarrow> if 0 < f \<and> i mod f = 0 \<and> i < length r then Some (r ! i) else None))"

text \<open>
  Modelled from the spec: part of \<open>simps_integrate\<close>, which is missing. Section 4.9: the
  running sum over the samples that follow; at an anchor the running value is overwritten
  with the reference value and the integration goes on from there.
\<close>

fun running :: "(nat \<Rightarrow> cell) \<Rightarrow> (nat \<Rightarrow> cell option) \<Rightarrow> cell \<Rightarrow> nat list \<Rightarrow> vec" where
  "running inc anc cur [] = []"
| "running inc anc cur (i # rest) =
     (let v = (case anc i of Some r \<Rightarrow> r | None \<Rightarrow> add_cell cur (inc i))
      in v # running inc anc v rest)"

text \<open>
  Modelled from the spec: part of \<open>simps_integrate\<close>, which is missing. Section 4.9: one
  axis; the first output is the initial value, or the reference value when the first
  sample is an anchor. The quadrature rule (Simpson's) is the parameter \<open>quad\<close>:
  \<open>quad times row i\<close> is its value for the integral of the row from sample i - 1 to
  sample i.
\<close>

definition integrate_axis ::
  "(vec \<Rightarrow> vec \<Rightarrow> nat \<Rightarrow> cell) \<Rightarrow> vec \<Rightarrow> vec \<Rightarrow> cell \<Rightarrow> vec option \<Rightarrow> nat option \<Rightarrow> vec" where
  "integrate_axis quad times_arr row initial adjust_row adjust_frequency =
     (if row = [] then []
      else
        let anc = anchor adjust_row adjust_frequency;
            first = (case anc 0 of Some r \<Rightarrow> r | None \<Rightarrow> initial)
        in first # running (quad times_arr row) anc first [1..<length row])"

text \<open>
  Modelled from the spec: part of \<open>simps_integrate\<close>, which is missing. The initial value
  of an axis; zero without \<open>initial\<close>, as in the second call of the pipeline.
\<close>

definition initial_at :: "vec option \<Rightarrow> nat \<Rightarrow> cell" where
  "initial_at initial k =
     (case initial of None \<Rightarrow> Some 0
      | Some v \<Rightarrow> if k < length v then v ! k else Some 0)"

text \<open>
  Modelled from the spec: part of \<open>simps_integrate\<close>, which is missing. The row of the
  reference for an axis, when there is one.
\<close>

definition adjust_row_at :: "series option \<Rightarrow> nat \<Rightarrow> vec option" where
  "adjust_row_at adjust_data k =
     (case adjust_data of None \<Rightarrow> None
      | Some a \<Rightarrow> if k < length a then Some (a ! k) else None)"

text \<open>
  Modelled from the spec: \<open>simps_integrate\<close> of \<open>integrate\<close> is missing. Section 4.9: a
  running sum of a quadrature rule over the time vector, from an initial value, each axis
  on its own; with an adjust series and an adjust frequency the running value is
  overwritten with the reference value at every anchor; a time vector that is not
  strictly increasing is an ordering error.
\<close>

definition simps_integrate ::
  "(vec \<Rightarrow> vec \<Rightarrow> nat \<Rightarrow> cell) \<Rightarrow> vec \<Rightarrow> series \<Rightarrow> vec option \<Rightarrow> series option \<Rightarrow> nat option
     \<Rightarrow> error + series" where
  "simps_integrate quad times_arr vectors initial adjust_data adjust_frequency =
     (if \<not> strictly_increasing times_arr then Inl OrderingError
      else Inr (map (\<lambda>k. integrate_axis quad times_arr (vectors ! k) (initial_at initial k)
                           (adjust_row_at adjust_data k) adjust_frequency)
                  [0..<length vectors]))"


section \<open>\_\_init\_\_.py\<close>

text \<open>
  The local variables of \<open>get_positions_times\<close>. Each statement of the function is a step
  from the variables before it to the variables after it, or to the error it raises.
\<close>

record locals =
  times_arr :: vec
  coordinates :: series
  altitudes :: vec
  gps_speed :: vec
  accelerations :: series
  angular_velocities :: series
  gnss_positions :: series
  headings :: vec
  real_velocities :: series
  real_speeds :: vec
  stationary_times :: intervals
  correct_velocities :: series
  correct_position :: series

definition window_size :: nat where
  "window_size = 20"

text \<open>Line 48: the six names bound to the tuple that \<open>parse_input\<close> returns.\<close>

fun unpack :: "vectors option \<Rightarrow> error + locals" where
  "unpack (Some (Fullinertial t c alt v a g)) =
     Inr \<lparr>times_arr = t, coordinates = c, altitudes = alt, gps_speed = v, accelerations = a,
          angular_velocities = g, gnss_positions = [], headings = [], real_velocities = [],
          real_speeds = [], stationary_times = [], correct_velocities = [],
          correct_position = []\<rparr>"
| "unpack _ = Inl UnpackError"

text \<open>Line 51.\<close>

definition convert_units :: "helpers \<Rightarrow> locals \<Rightarrow> error + locals" where
  "convert_units h s =
     bind_res (helper (converts_measurement_units h (accelerations s) (angular_velocities s)
                         (gps_speed s) (coordinates s)))
       (\<lambda>(a, g, v, c). Inr (s\<lparr>accelerations := a, angular_velocities := g, gps_speed := v,
                               coordinates := c\<rparr>))"

text \<open>Line 54.\<close>

definition positions_from_gnss :: "helpers \<Rightarrow> locals \<Rightarrow> error + locals" where
  "positions_from_gnss h s =
     bind_res (helper (get_positions h (coordinates s) (altitudes s)))
       (\<lambda>(p, hs). Inr (s\<lparr>gnss_positions := p, headings := hs\<rparr>))"

text \<open>Line 57.\<close>

definition reduce_accelerations :: "locals \<Rightarrow> error + locals" where
  "reduce_accelerations s =
     (let (t, a) = reduce_disturbance (times_arr s) (accelerations s) window_size
      in Inr (s\<lparr>times_arr := t, accelerations := a\<rparr>))"

text \<open>Line 59: the times are the trimmed ones already, and the times returned are dropped.\<close>

definition reduce_angular_velocities :: "locals \<Rightarrow> error + locals" where
  "reduce_angular_velocities s =
     (let (_, g) = reduce_disturbance (times_arr s) (angular_velocities s) window_size
      in Inr (s\<lparr>angular_velocities := g\<rparr>))"

text \<open>Line 61: \<open>gnss_positions[:, round(window_size / 2):-round(window_size / 2)]\<close>.\<close>

definition truncate_gnss :: "locals \<Rightarrow> error + locals" where
  "truncate_gnss s =
     Inr (s\<lparr>gnss_positions :=
            map (\<lambda>row. py_slice row (Some (int (py_round_half window_size)))
                         (Some (- int (py_round_half window_size))))
              (gnss_positions s)\<rparr>)"

text \<open>Lines 64 and 66.\<close>

definition velocities_from_gnss :: "helpers \<Rightarrow> locals \<Rightarrow> error + locals" where
  "velocities_from_gnss h s =
     bind_res (helper (get_velocities h (times_arr s) (gnss_positions s)))
       (\<lambda>v. Inr (s\<lparr>real_velocities := v, real_speeds := norm_axis0 v\<rparr>))"

text \<open>Line 69.\<close>

definition find_stationary :: "helpers \<Rightarrow> locals \<Rightarrow> error + locals" where
  "find_stationary h s =
     bind_res (get_stationary_times (speed_threshold h) (minimum_duration h) (real_speeds s))
       (\<lambda>st. Inr (s\<lparr>stationary_times := st\<rparr>))"

text \<open>Lines 72, 74 and 77.\<close>

definition gyro_drift :: "helpers \<Rightarrow> locals \<Rightarrow> error + locals" where
  "gyro_drift h s =
     bind_res (helper (clear_gyro_drift h (angular_velocities s) (stationary_times s)))
       (\<lambda>g. Inr (s\<lparr>angular_velocities := g\<rparr>))"

definition normalize_times :: "helpers \<Rightarrow> locals \<Rightarrow> error + locals" where
  "normalize_times h s =
     bind_res (helper (normalize_timestamp h (times_arr s)))
       (\<lambda>t. Inr (s\<lparr>times_arr := t\<rparr>))"

definition z_orientation :: "helpers \<Rightarrow> locals \<Rightarrow> error + locals" where
  "z_orientation h s =
     bind_res (helper (correct_z_orientation h (accelerations s) (angular_velocities s)
                         (stationary_times s)))
       (\<lambda>(a, g). Inr (s\<lparr>accelerations := a, angular_velocities := g\<rparr>))"

text \<open>
  Line 80:
  \<open>accelerations[2] -= accelerations[2, stationary_times[0][0]:stationary_times[0][-1]].mean()\<close>.
  An interval is the pair of its first and last entry.
\<close>

definition remove_g :: "locals \<Rightarrow> error + locals" where
  "remove_g s =
     (if length (accelerations s) < 3 then Inl IndexError
      else case stationary_times s of
        [] \<Rightarrow> Inl IndexError
      | (start, stop) # _ \<Rightarrow>
          let az = accelerations s ! 2;
              g = mean_cells (py_slice az (Some (int start)) (Some (int stop)))
          in Inr (s\<lparr>accelerations := (accelerations s)[2 := map (\<lambda>v. sub_cell v g) az]\<rparr>))"

text \<open>Lines 83, 86 and 89.\<close>

definition xy_orientation :: "helpers \<Rightarrow> locals \<Rightarrow> error + locals" where
  "xy_orientation h s =
     bind_res (helper (correct_xy_orientation h (accelerations s) (angular_velocities s)))
       (\<lambda>a. Inr (s\<lparr>accelerations := a\<rparr>))"

definition to_laboratory :: "helpers \<Rightarrow> locals \<Rightarrow> error + locals" where
  "to_laboratory h s =
     bind_res (helper (rotate_accelerations h (times_arr s) (accelerations s)
                         (angular_velocities s)))
       (\<lambda>a. Inr (s\<lparr>accelerations := a\<rparr>))"

definition to_world :: "helpers \<Rightarrow> locals \<Rightarrow> error + locals" where
  "to_world h s =
     bind_res (helper (align_to_world h (gnss_positions s) (accelerations s)
                         (stationary_times s)))
       (\<lambda>a. Inr (s\<lparr>accelerations := a\<rparr>))"

text \<open>Lines 92 to 95: \<open>initial_speed\<close> is the column of \<open>gps_speed[0]\<close>, 0 and 0.\<close>

definition integrate_velocities :: "helpers \<Rightarrow> locals \<Rightarrow> error + locals" where
  "integrate_velocities h s =
     (case gps_speed s of
        [] \<Rightarrow> Inl IndexError
      | v0 # _ \<Rightarrow>
          bind_res (simps_integrate (quadrature h) (times_arr s) (accelerations s)
                      (Some [v0, Some 0, Some 0]) (Some (real_velocities s)) (Some 1))
            (\<lambda>v. Inr (s\<lparr>correct_velocities := v\<rparr>)))"

text \<open>Lines 97 to 99.\<close>

definition sign_correction :: "helpers \<Rightarrow> locals \<Rightarrow> error + locals" where
  "sign_correction h s =
     bind_res (helper (sign_inversion_is_necessary h (correct_velocities s)))
       (\<lambda>necessary.
          if necessary
          then Inr (s\<lparr>accelerations := negate (accelerations s),
                      correct_velocities := negate (correct_velocities s)\<rparr>)
          else Inr s)"

text \<open>Line 101.\<close>

definition integrate_positions :: "helpers \<Rightarrow> locals \<Rightarrow> error + locals" where
  "integrate_positions h s =
     bind_res (simps_integrate (quadrature h) (times_arr s) (correct_velocities s)
                 None (Some (gnss_positions s)) (Some 1))
       (\<lambda>p. Inr (s\<lparr>correct_position := p\<rparr>))"

text \<open>The statements in their order; the first error ends the run.\<close>

fun run_steps :: "('s \<Rightarrow> error + 's) list \<Rightarrow> 's \<Rightarrow> error + 's" where
  "run_steps [] s = Inr s"
| "run_steps (f # fs) s = bind_res (f s) (run_steps fs)"

definition steps_before_stationary :: "helpers \<Rightarrow> (locals \<Rightarrow> error + locals) list" where
  "steps_before_stationary h =
     [convert_units h, positions_from_gnss h, reduce_accelerations,
      reduce_angular_velocities, truncate_gnss, velocities_from_gnss h]"

definition steps_after_stationary :: "helpers \<Rightarrow> (locals \<Rightarrow> error + locals) list" where
  "steps_after_stationary h =
     [gyro_drift h, normalize_times h, z_orientation h, remove_g, xy_orientation h,
      to_laboratory h, to_world h, integrate_velocities h, sign_correction h,
      integrate_positions h]"

text \<open>Lines 45 to 66: from the file to the speeds in which the stationary times are sought.\<close>

definition prepare :: "helpers \<Rightarrow> string \<Rightarrow> dataframe \<Rightarrow> error + locals" where
  "prepare h path df =
     bind_res (parse_input (interp h) path df [UNMOD_FULLINERTIAL] None None) (\<lambda>parsed.
     bind_res (unpack parsed) (run_steps (steps_before_stationary h)))"

text \<open>
  \<open>get_positions_times(path)\<close>, from the dataframe read at the path; it returns
  \<open>correct_position, times\<close>.
\<close>

definition get_positions_times ::
  "helpers \<Rightarrow> string \<Rightarrow> dataframe \<Rightarrow> error + (series \<times> vec)" where
  "get_positions_times h path df =
     bind_res (prepare h path df) (\<lambda>s1.
     bind_res (run_steps (find_stationary h # steps_after_stationary h) s1) (\<lambda>s.
     Inr (correct_position s, times_arr s)))"

text \<open>
  The invariant of the data model (section 3 of the specification) for the helpers that
  are parameters: a helper that returns an acceleration series, or the time vector,
  returns it with the shape it was given. The two in place helpers cannot do otherwise.
\<close>

definition shape_preserving :: "helpers \<Rightarrow> bool" where
  "shape_preserving h =
     ((\<forall>a g v c a' g' v' c'. converts_measurement_units h a g v c = Inr (a', g', v', c')
          \<longrightarrow> map length a' = map length a)
    \<and> (\<forall>t t'. normalize_timestamp h t = Inr t' \<longrightarrow> length t' = length t)
    \<and> (\<forall>a g st a' g'. correct_z_orientation h a g st = Inr (a', g')
          \<longrightarrow> map length a' = map length a)
    \<and> (\<forall>a g a'. correct_xy_orientation h a g = Inr a' \<longrightarrow> map length a' = map length a)
    \<and> (\<forall>t a g a'. rotate_accelerations h t a g = Inr a' \<longrightarrow> map length a' = map length a)
    \<and> (\<forall>p a st a'. align_to_world h p a st = Inr a' \<longrightarrow> map length a' = map length a))"

text \<open>The accelerations are three rows with one sample for each time.\<close>

definition aligned :: "locals \<Rightarrow> bool" where
  "aligned s = (map length (accelerations s) = replicate 3 (length (times_arr s)))"

section \<open>Example inputs\<close>

text \<open>A recording of two rows in the inertial layout.\<close>

definition two_rows :: dataframe where
  "two_rows =
     \<lparr>columns = [''timestamp'', ''speed'', ''ax'', ''ay'', ''az'', ''gx'', ''gy'', ''gz''],
      rows = [[Some 0, Some 1, Some 0, Some 0, Some 9, Some 0, Some 0, Some 0],
              [Some 1, Some 1, Some 0, Some 0, Some 9, Some 0, Some 0, Some 0]]\<rparr>"

definition no_interp :: interp1d where
  "no_interp x y = Inl ''not called''"

text \<open>
  A recording of 22 rows in the unmodified fullinertial layout, one row a second, of a
  vehicle at rest: gravity on the z axis of the accelerometer and nothing else.
\<close>

definition recording :: dataframe where
  "recording =
     \<lparr>columns = [''timestamp'', ''lon'', ''lat'', ''alt'', ''speed'',
                 ''ax'', ''ay'', ''az'', ''gx'', ''gy'', ''gz''],
      rows = map (\<lambda>i. [Some (real i), Some 0, Some 0, Some 0, Some 0,
                        Some 0, Some 0, Some 9, Some 0, Some 0, Some 0]) [0..<22]\<rparr>"

text \<open>The trapezoidal rule, as a quadrature rule to run the integrator with.\<close>

definition trapezoid :: "vec \<Rightarrow> vec \<Rightarrow> nat \<Rightarrow> cell" where
  "trapezoid ts row i =
     (case (cell_at row (i - 1), cell_at row i, cell_at ts (i - 1), cell_at ts i) of
        (Some a, Some b, Some s, Some t) \<Rightarrow> Some ((a + b) / 2 * (t - s))
      | _ \<Rightarrow> None)"

text \<open>
  Helpers to run the pipeline with: no conversion, no rotation, positions and velocities
  zero, the times counted from the first one.
\<close>

definition still_helpers :: helpers where
  "still_helpers =
     \<lparr>interp = (\<lambda>x y. Inr (\<lambda>t. (Some 0, Some 0, Some 0))),
      converts_measurement_units = (\<lambda>a g v c. Inr (a, g, v, c)),
      get_positions =
        (\<lambda>c alt. Inr ([map (\<lambda>_. Some 0) alt, map (\<lambda>_. Some 0) alt, alt], [])),
      get_velocities = (\<lambda>t p. Inr (map (map (\<lambda>_. Some 0)) p)),
      clear_gyro_drift = (\<lambda>g st. Inr g),
      normalize_timestamp = (\<lambda>t. Inr (map (\<lambda>c. sub_cell c (cell_at t 0)) t)),
      correct_z_orientation = (\<lambda>a g st. Inr (a, g)),
      correct_xy_orientation = (\<lambda>a g. Inr a),
      rotate_accelerations = (\<lambda>t a g. Inr a),
      align_to_world = (\<lambda>p a st. Inr a),
      sign_inversion_is_necessary = (\<lambda>v. Inr False),
      quadrature = trapezoid,
      speed_threshold = 1 / 5,
      minimum_duration = 1\<rparr>"

text \<open>The same with a velocity of 1 along x at every sample: the vehicle never rests.\<close>

definition moving_helpers :: helpers where
  "moving_helpers =
     still_helpers\<lparr>get_velocities :=
       (\<lambda>t p. Inr [map (\<lambda>_. Some 1) t, map (\<lambda>_. Some 0) t, map (\<lambda>_. Some 0) t])\<rparr>"

text \<open>The same with a sign test that asks for the inversion.\<close>

definition inverting_helpers :: helpers where
  "inverting_helpers = still_helpers\<lparr>sign_inversion_is_necessary := (\<lambda>v. Inr True)\<rparr>"

text \<open>Local variables in the middle of a run, four samples long.\<close>

definition sample_locals :: locals where
  "sample_locals =
     \<lparr>times_arr = [Some 0, Some 1, Some 2, Some 3],
      coordinates = [], altitudes = [], gps_speed = [Some 3],
      accelerations = [[Some 1, Some (- 2), Some 3, Some 4],
                       [Some 0, Some 0, Some 0, Some 0],
                       [Some 9, Some 10, Some 11, Some 12]],
      angular_velocities = [[Some 0, Some 0, Some 0, Some 0],
                            [Some 0, Some 0, Some 0, Some 0],
                            [Some 0, Some 0, Some 0, Some 0]],
      gnss_positions = [[Some 0, Some 1, Some 2, Some 3],
                        [Some 0, Some 0, Some 0, Some 0],
                        [Some 0, Some 0, Some 0, Some 0]],
      headings = [], real_velocities = [], real_speeds = [],
      stationary_times = [(0, 2)],
      correct_velocities = [[Some 3, Some (- 1), Some 0, Some 2],
                            [Some 0, Some 0, Some 0, Some 0],
                            [Some 0, Some 0, Some 0, Some 0]],
      correct_position = []\<rparr>"


section \<open>Properties of parse\_input\<close>

lemma bind_not_slice:
  "\<not> is_slice_error m \<Longrightarrow> (\<And>x. \<not> is_slice_error (f x)) \<Longrightarrow> \<not> is_slice_error (bind_res m f)"
  by (cases m) (simp_all add: bind_res_def is_slice_error_def)

lemma bind_not_format:
  "\<not> is_format_error m \<Longrightarrow> (\<And>x. \<not> is_format_error (f x))
     \<Longrightarrow> \<not> is_format_error (bind_res m f)"
  by (cases m) (simp_all add: bind_res_def is_format_error_def)

lemma prims_not_slice:
  "\<not> is_slice_error (column df n)"
  "\<not> is_slice_error (columns_T df ns)"
  "\<not> is_slice_error (dropna df n)"
  "\<not> is_slice_error (helper r)"
  by (simp_all add: column_def columns_T_def dropna_def helper_def Let_def
        is_slice_error_def split: option.splits sum.splits)

lemma prims_not_format:
  "\<not> is_format_error (column df n)"
  "\<not> is_format_error (columns_T df ns)"
  "\<not> is_format_error (dropna df n)"
  "\<not> is_format_error (helper r)"
  by (simp_all add: column_def columns_T_def dropna_def helper_def Let_def
        is_format_error_def split: option.splits sum.splits)

lemma if_not_slice:
  "(c \<Longrightarrow> \<not> is_slice_error a) \<Longrightarrow> (\<not> c \<Longrightarrow> \<not> is_slice_error b)
     \<Longrightarrow> \<not> is_slice_error (if c then a else b)"
  by simp

lemma if_not_format:
  "(c \<Longrightarrow> \<not> is_format_error a) \<Longrightarrow> (\<not> c \<Longrightarrow> \<not> is_format_error b)
     \<Longrightarrow> \<not> is_format_error (if c then a else b)"
  by simp

lemma Inr_not_slice: "\<not> is_slice_error (Inr x)"
  by (simp add: is_slice_error_def)

lemma Inr_not_format: "\<not> is_format_error (Inr x)"
  by (simp add: is_format_error_def)

text \<open>\<open>get_vectors\<close> raises neither of the errors of \<open>parse_input\<close>.\<close>

lemma get_vectors_not_slice: "\<not> is_slice_error (get_vectors ip df t)"
  unfolding get_vectors_def Let_def
  by (intro if_not_slice bind_not_slice prims_not_slice Inr_not_slice)

lemma get_vectors_not_format: "\<not> is_format_error (get_vectors ip df t)"
  unfolding get_vectors_def Let_def
  by (intro if_not_format bind_not_format prims_not_format Inr_not_format)

lemma detect_inertial: "detect_input_type df ''inertial.tsv'' = INERTIAL"
  by (simp add: detect_input_type_def find_str_def)

lemma detect_acc: "detect_input_type df ''acc.tsv'' = ACCELERATION"
  by (simp add: detect_input_type_def find_str_def)

lemma two_rows_from_1:
  "get_vectors no_interp (two_rows\<lparr>rows := py_slice (rows two_rows) (Some 1) None\<rparr>) INERTIAL
     = Inr (Some (Inertial [Some 1] [Some 1] [[Some 0], [Some 0], [Some 9]]
                           [[Some 0], [Some 0], [Some 0]]))"
  by (simp add: get_vectors_def two_rows_def py_slice_def slice_bound_def bind_res_def
        columns_T_def column_def cell_at_def)

lemma detect_data: "detect_input_type two_rows ''data.tsv'' = UNRECOGNIZED"
  by (simp add: detect_input_type_def find_str_def two_rows_def)

text \<open>
  C4, as the code has it. \<open>parse_input\<close> raises a slice error exactly when the input
  type is recognized and \<open>slice_start\<close> is given and negative or \<open>slice_end\<close> is given
  and its absolute value exceeds the number of rows; for a recognized type with other
  bounds it goes on to the check of the accepted types and to \<open>get_vectors\<close> on the
  sliced rows. A \<open>slice_start\<close> beyond the number of rows and a negative \<open>slice_end\<close>
  within it pass; for an unrecognized type the bounds are not looked at.
\<close>

theorem parse_input_slice_error:
  "is_slice_error (parse_input ip filepath df accepted a b)
     = (detect_input_type df filepath \<noteq> UNRECOGNIZED \<and> \<not> slice_checks_pass df a b)
   \<and> (detect_input_type df filepath \<noteq> UNRECOGNIZED \<and> slice_checks_pass df a b \<longrightarrow>
        parse_input ip filepath df accepted a b =
          (if detect_input_type df filepath \<in> set accepted
           then get_vectors ip (df\<lparr>rows := py_slice (rows df) a b\<rparr>)
                  (detect_input_type df filepath)
           else Inl NotAcceptedFormat))"
  using get_vectors_not_slice [of ip _ "detect_input_type df filepath"]
  by (auto simp: parse_input_def slice_checks_pass_def Let_def is_slice_error_def
           split: option.splits)

theorem parse_input_slice_error_witness:
  "detect_input_type two_rows ''inertial.tsv'' \<noteq> UNRECOGNIZED
   \<and> \<not> slice_checks_pass two_rows (Some (- 1)) None
   \<and> is_slice_error (parse_input no_interp ''inertial.tsv'' two_rows [INERTIAL] (Some (- 1)) None)
   \<and> slice_checks_pass two_rows (Some 1) None
   \<and> parse_input no_interp ''inertial.tsv'' two_rows [INERTIAL] (Some 1) None
       = Inr (Some (Inertial [Some 1] [Some 1] [[Some 0], [Some 0], [Some 9]]
                             [[Some 0], [Some 0], [Some 0]]))"
proof -
  have t: "detect_input_type two_rows ''inertial.tsv'' \<noteq> UNRECOGNIZED"
    by (simp add: detect_inertial)
  have bad: "\<not> slice_checks_pass two_rows (Some (- 1)) None"
    by (simp add: slice_checks_pass_def)
  have good: "slice_checks_pass two_rows (Some 1) None"
    by (simp add: slice_checks_pass_def two_rows_def)
  from parse_input_slice_error
         [of no_interp "''inertial.tsv''" two_rows "[INERTIAL]" "Some (- 1)" None] t bad
  have 1: "is_slice_error
             (parse_input no_interp ''inertial.tsv'' two_rows [INERTIAL] (Some (- 1)) None)"
    by simp
  from parse_input_slice_error
         [of no_interp "''inertial.tsv''" two_rows "[INERTIAL]" "Some 1" None] t good
  have 2: "parse_input no_interp ''inertial.tsv'' two_rows [INERTIAL] (Some 1) None
       = Inr (Some (Inertial [Some 1] [Some 1] [[Some 0], [Some 0], [Some 9]]
                             [[Some 0], [Some 0], [Some 0]]))"
    by (simp add: detect_inertial two_rows_from_1)
  from t bad good 1 2 show ?thesis by simp
qed

text \<open>
  C4 as stated fails: with two rows and \<open>slice_start = 5\<close>, a bound outside the recording,
  no slice error is raised and the empty arrays are returned. Nor are the bounds
  validated as non-negative: \<open>slice_end = -1\<close> is accepted and drops the last row. And a
  negative \<open>slice_start\<close> on a file of unrecognized type raises the format error.
\<close>

theorem parse_input_slice_counterexample:
  "int (length (rows two_rows)) < 5
   \<and> parse_input no_interp ''inertial.tsv'' two_rows [INERTIAL] (Some 5) None
       = Inr (Some (Inertial [] [] [[], [], []] [[], [], []]))
   \<and> \<not> is_slice_error
         (parse_input no_interp ''inertial.tsv'' two_rows [INERTIAL] (Some 5) None)
   \<and> parse_input no_interp ''inertial.tsv'' two_rows [INERTIAL] None (Some (- 1))
       = Inr (Some (Inertial [Some 0] [Some 1] [[Some 0], [Some 0], [Some 9]]
                             [[Some 0], [Some 0], [Some 0]]))
   \<and> parse_input no_interp ''data.tsv'' two_rows [INERTIAL] (Some (- 1)) None
       = Inl UnrecognizedFormat"
proof -
  have "parse_input no_interp ''data.tsv'' two_rows [INERTIAL] (Some (- 1)) None
       = Inl UnrecognizedFormat"
    by (simp add: parse_input_def detect_data)
  then show ?thesis
    by (simp add: parse_input_def detect_inertial is_slice_error_def get_vectors_def
          two_rows_def py_slice_def slice_bound_def bind_res_def columns_T_def column_def
          cell_at_def)
qed

text \<open>
  C5, as the code has it. \<open>parse_input\<close> raises a format error exactly when the detected
  type is UNRECOGNIZED, or the slicing bounds pass their checks and the type is not among
  the accepted ones. The bounds are checked before the accepted types, so a recognized
  type that is not accepted raises the slice error when the bounds are bad. A recognized
  and accepted type never raises a format error.
\<close>

theorem parse_input_format_error:
  "is_format_error (parse_input ip filepath df accepted a b) =
     (detect_input_type df filepath = UNRECOGNIZED \<or>
      (slice_checks_pass df a b \<and> detect_input_type df filepath \<notin> set accepted))"
  using get_vectors_not_format [of ip _ "detect_input_type df filepath"]
  by (auto simp: parse_input_def slice_checks_pass_def Let_def is_format_error_def
           split: option.splits)

theorem parse_input_format_error_witness:
  "is_format_error (parse_input no_interp ''inertial.tsv'' two_rows [UNMOD_FULLINERTIAL] None None)
   \<and> \<not> is_format_error (parse_input no_interp ''inertial.tsv'' two_rows [INERTIAL] None None)"
  using parse_input_format_error [of no_interp "''inertial.tsv''" two_rows "[UNMOD_FULLINERTIAL]" None None]
    parse_input_format_error [of no_interp "''inertial.tsv''" two_rows "[INERTIAL]" None None]
  by (simp add: detect_inertial slice_checks_pass_def)

text \<open>
  C5 as stated fails: a file detected as ACCELERATION, which is not in the accepted list,
  with \<open>slice_start = -1\<close> raises the slice error, not a format error.
\<close>

theorem parse_input_format_counterexample:
  "detect_input_type two_rows ''acc.tsv'' \<notin> set [UNMOD_FULLINERTIAL]
   \<and> parse_input no_interp ''acc.tsv'' two_rows [UNMOD_FULLINERTIAL] (Some (- 1)) None
       = Inl SliceStartError
   \<and> \<not> is_format_error
         (parse_input no_interp ''acc.tsv'' two_rows [UNMOD_FULLINERTIAL] (Some (- 1)) None)"
  by (simp add: parse_input_def detect_acc is_format_error_def)

text \<open>
  C10. When the detected type is ACCELERATION, GNSS or GYROSCOPE, the type is accepted
  and the slicing bounds pass their checks, \<open>parse_input\<close> raises nothing and returns
  None: \<open>get_vectors\<close> has no branch for these types.
\<close>

theorem parse_input_returns_None:
  assumes "detect_input_type df filepath \<in> {ACCELERATION, GNSS, GYROSCOPE}"
    and "detect_input_type df filepath \<in> set accepted"
    and "slice_checks_pass df a b"
  shows "parse_input ip filepath df accepted a b = Inr None"
  using assms
  by (auto simp: parse_input_def slice_checks_pass_def get_vectors_def Let_def
           split: option.splits)

theorem parse_input_returns_None_witness:
  "detect_input_type two_rows ''acc.tsv'' \<in> {ACCELERATION, GNSS, GYROSCOPE}
   \<and> detect_input_type two_rows ''acc.tsv'' \<in> set [ACCELERATION, INERTIAL]
   \<and> slice_checks_pass two_rows (Some 0) (Some 2)
   \<and> parse_input no_interp ''acc.tsv'' two_rows [ACCELERATION, INERTIAL] (Some 0) (Some 2)
       = Inr None"
proof -
  have 1: "detect_input_type two_rows ''acc.tsv'' \<in> {ACCELERATION, GNSS, GYROSCOPE}"
    by (simp add: detect_acc)
  have 2: "detect_input_type two_rows ''acc.tsv'' \<in> set [ACCELERATION, INERTIAL]"
    by (simp add: detect_acc)
  have 3: "slice_checks_pass two_rows (Some 0) (Some 2)"
    by (simp add: slice_checks_pass_def two_rows_def)
  from parse_input_returns_None [OF 1 2 3] 1 2 3 show ?thesis by simp
qed

section \<open>Steps and their results\<close>

lemma bind_res_Inr: "bind_res m f = Inr y \<longleftrightarrow> (\<exists>x. m = Inr x \<and> f x = Inr y)"
  by (cases m) (simp_all add: bind_res_def)

lemma helper_Inr: "helper r = Inr x \<longleftrightarrow> r = Inr x"
  by (cases r) (simp_all add: helper_def)

lemma run_steps_append:
  "run_steps (fs @ gs) s = bind_res (run_steps fs s) (run_steps gs)"
proof (induction fs arbitrary: s)
  case Nil
  show ?case by (simp add: bind_res_def)
next
  case (Cons f fs)
  show ?case by (cases "f s") (simp_all add: bind_res_def Cons.IH)
qed

lemma run_steps_invariant:
  "(\<forall>f \<in> set fs. \<forall>a b. f a = Inr b \<longrightarrow> P a \<longrightarrow> P b) \<Longrightarrow>
     run_steps fs s = Inr s' \<Longrightarrow> P s \<Longrightarrow> P s'"
  by (induction fs arbitrary: s) (auto simp: bind_res_Inr)

text \<open>Running the pipeline on the example recording.\<close>

lemma detect_unmod:
  "detect_input_type df ''unmodified-fullinertial.tsv'' = UNMOD_FULLINERTIAL"
  by (simp add: detect_input_type_def find_str_def)

lemma still_fields:
  "interp still_helpers = (\<lambda>x y. Inr (\<lambda>t. (Some 0, Some 0, Some 0)))"
  "converts_measurement_units still_helpers = (\<lambda>a g v c. Inr (a, g, v, c))"
  "get_positions still_helpers
     = (\<lambda>c alt. Inr ([map (\<lambda>_. Some 0) alt, map (\<lambda>_. Some 0) alt, alt], []))"
  "get_velocities still_helpers = (\<lambda>t p. Inr (map (map (\<lambda>_. Some 0)) p))"
  "clear_gyro_drift still_helpers = (\<lambda>g st. Inr g)"
  "normalize_timestamp still_helpers = (\<lambda>t. Inr (map (\<lambda>c. sub_cell c (cell_at t 0)) t))"
  "correct_z_orientation still_helpers = (\<lambda>a g st. Inr (a, g))"
  "correct_xy_orientation still_helpers = (\<lambda>a g. Inr a)"
  "rotate_accelerations still_helpers = (\<lambda>t a g. Inr a)"
  "align_to_world still_helpers = (\<lambda>p a st. Inr a)"
  "sign_inversion_is_necessary still_helpers = (\<lambda>v. Inr False)"
  "quadrature still_helpers = trapezoid"
  "speed_threshold still_helpers = 1 / 5"
  "minimum_duration still_helpers = 1"
  by (simp_all add: still_helpers_def)

lemma moving_fields:
  "interp moving_helpers = (\<lambda>x y. Inr (\<lambda>t. (Some 0, Some 0, Some 0)))"
  "converts_measurement_units moving_helpers = (\<lambda>a g v c. Inr (a, g, v, c))"
  "get_positions moving_helpers
     = (\<lambda>c alt. Inr ([map (\<lambda>_. Some 0) alt, map (\<lambda>_. Some 0) alt, alt], []))"
  "get_velocities moving_helpers
     = (\<lambda>t p. Inr [map (\<lambda>_. Some 1) t, map (\<lambda>_. Some 0) t, map (\<lambda>_. Some 0) t])"
  "speed_threshold moving_helpers = 1 / 5"
  "minimum_duration moving_helpers = 1"
  by (simp_all add: moving_helpers_def still_helpers_def)

lemmas prepare_defs =
  prepare_def parse_input_def detect_unmod get_vectors_def recording_def
  py_slice_def bind_res_def helper_def dropna_def columns_T_def column_def cell_at_def
  upt_conv_Cons steps_before_stationary_def convert_units_def positions_from_gnss_def
  reduce_accelerations_def reduce_angular_velocities_def truncate_gnss_def
  velocities_from_gnss_def reduce_disturbance_def norm_axis0_def moving_average_def
  py_round_half_def mean_cells_def window_size_def trim_ends_def slice_bound_def Let_def

lemmas rest_defs =
  steps_after_stationary_def find_stationary_def gyro_drift_def normalize_times_def
  z_orientation_def remove_g_def xy_orientation_def to_laboratory_def to_world_def
  integrate_velocities_def sign_correction_def integrate_positions_def
  simps_integrate_def strictly_increasing_def less_cell_def integrate_axis_def
  anchor_def adjust_row_at_def initial_at_def sub_cell_def
  get_stationary_times_def qualifying_intervals_def

lemma still_run:
  "get_positions_times still_helpers ''unmodified-fullinertial.tsv'' recording
     = Inr ([[Some 0, Some 0], [Some 0, Some 0], [Some 0, Some 0]], [Some 0, Some 1])"
  by (simp add: get_positions_times_def prepare_defs rest_defs still_fields)

lemma still_shape_preserving: "shape_preserving still_helpers"
  by (simp add: shape_preserving_def still_fields)

section \<open>The anchored integrator\<close>

lemma length_running: "length (running inc anc cur js) = length js"
  by (induction js arbitrary: cur) (simp_all add: Let_def)

lemma running_anchor:
  "i < length js \<Longrightarrow> anc (js ! i) = Some r \<Longrightarrow> running inc anc cur js ! i = r"
proof (induction js arbitrary: cur i)
  case Nil
  then show ?case by simp
next
  case (Cons j js)
  show ?case
  proof (cases i)
    case 0
    with Cons.prems show ?thesis by (simp add: Let_def)
  next
    case (Suc m)
    with Cons.prems Cons.IH show ?thesis by (simp add: Let_def)
  qed
qed

lemma length_integrate_axis:
  "length (integrate_axis quad ts row init adj f) = length row"
  by (cases "row = []") (simp_all add: integrate_axis_def Let_def length_running)

lemma integrate_axis_first:
  "row \<noteq> [] \<Longrightarrow> integrate_axis quad ts row init adj f ! 0 =
     (case anchor adj f 0 of Some r \<Rightarrow> r | None \<Rightarrow> init)"
  by (simp add: integrate_axis_def Let_def)

lemma integrate_axis_anchor:
  assumes "i < length row" and "anchor adj f i = Some r"
  shows "integrate_axis quad ts row init adj f ! i = r"
proof (cases i)
  case 0
  with assms show ?thesis by (auto simp: integrate_axis_def Let_def)
next
  case (Suc m)
  with assms have m: "m < length [1..<length row]" by simp
  have "[1..<length row] ! m = i" using Suc assms by simp
  with assms have "anchor adj f ([1..<length row] ! m) = Some r" by simp
  from running_anchor [OF m, of "anchor adj f" r] this
  have "running (quad ts row) (anchor adj f) c [1..<length row] ! m = r" for c .
  with Suc assms show ?thesis by (auto simp: integrate_axis_def Let_def)
qed

lemma anchor_every_sample:
  "i < length (reference ! k) \<Longrightarrow> k < length reference \<Longrightarrow>
     anchor (adjust_row_at (Some reference) k) (Some 1) i = Some (reference ! k ! i)"
  by (simp add: anchor_def adjust_row_at_def)

lemma simps_integrate_anchored:
  assumes "k < length reference" and "i < length row" and "i < length (reference ! k)"
  shows "integrate_axis quad ts row init (adjust_row_at (Some reference) k) (Some 1) ! i
           = reference ! k ! i"
  using integrate_axis_anchor [OF assms(2) anchor_every_sample [OF assms(3) assms(1)]] .

text \<open>
  C2. For a strictly increasing time vector the integrator returns a series with as many
  rows as its input and, in each row, as many samples; the first sample of a row is the
  reference value when the first sample is an anchor and the initial value otherwise;
  with a reference series and \<open>adjust_frequency = 1\<close> the output equals the reference at
  every sample that both have.
\<close>

theorem simps_integrate_contract:
  assumes "strictly_increasing ts"
  shows "\<exists>out. simps_integrate quad ts vectors initial adjust_data adjust_frequency = Inr out
     \<and> length out = length vectors
     \<and> (\<forall>k < length vectors.
           length (out ! k) = length (vectors ! k)
         \<and> (vectors ! k \<noteq> [] \<longrightarrow>
              out ! k ! 0 = (case anchor (adjust_row_at adjust_data k) adjust_frequency 0 of
                               Some r \<Rightarrow> r | None \<Rightarrow> initial_at initial k))
         \<and> (\<forall>reference. adjust_data = Some reference \<and> adjust_frequency = Some 1
               \<and> k < length reference \<longrightarrow>
              (\<forall>i. i < length (vectors ! k) \<and> i < length (reference ! k) \<longrightarrow>
                 out ! k ! i = reference ! k ! i)))"
  using assms
  by (simp add: simps_integrate_def length_integrate_axis integrate_axis_first
        simps_integrate_anchored del: One_nat_def)

lemma increasing_012: "strictly_increasing [Some 0, Some 1, Some 2]"
  by (simp add: strictly_increasing_def less_cell_def)

theorem simps_integrate_contract_witness:
  "strictly_increasing [Some 0, Some 1, Some 2]
   \<and> (\<exists>out. simps_integrate trapezoid [Some 0, Some 1, Some 2] [[Some 2, Some 2, Some 2]]
               (Some [Some 5]) None None = Inr out
         \<and> length out = 1 \<and> length (out ! 0) = 3 \<and> out ! 0 ! 0 = Some 5)
   \<and> (\<exists>out. simps_integrate trapezoid [Some 0, Some 1, Some 2] [[Some 2, Some 2, Some 2]]
               (Some [Some 5]) (Some [[Some 7, Some 8, Some 9]]) (Some 1) = Inr out
         \<and> length out = 1 \<and> length (out ! 0) = 3
         \<and> out ! 0 ! 0 = Some 7 \<and> out ! 0 ! 1 = Some 8 \<and> out ! 0 ! 2 = Some 9)"
proof -
  from simps_integrate_contract [OF increasing_012, of trapezoid "[[Some 2, Some 2, Some 2]]"
      "Some [Some 5]" None None]
  have 1: "\<exists>out. simps_integrate trapezoid [Some 0, Some 1, Some 2] [[Some 2, Some 2, Some 2]]
               (Some [Some 5]) None None = Inr out
         \<and> length out = 1 \<and> length (out ! 0) = 3 \<and> out ! 0 ! 0 = Some 5"
    by (auto simp: anchor_def adjust_row_at_def initial_at_def numeral_3_eq_3)
  from simps_integrate_contract [OF increasing_012, of trapezoid "[[Some 2, Some 2, Some 2]]"
      "Some [Some 5]" "Some [[Some 7, Some 8, Some 9]]" "Some 1"]
  obtain out where o: "simps_integrate trapezoid [Some 0, Some 1, Some 2]
         [[Some 2, Some 2, Some 2]] (Some [Some 5]) (Some [[Some 7, Some 8, Some 9]]) (Some 1)
           = Inr out"
    and l: "length out = 1" "length (out ! 0) = 3"
    and f: "out ! 0 ! 0 = Some 7"
    and a: "\<forall>i. i < 3 \<longrightarrow> out ! 0 ! i = [Some 7, Some 8, Some 9] ! i"
    by (auto simp: anchor_def adjust_row_at_def)
  from a have "out ! 0 ! 1 = Some 8" "out ! 0 ! 2 = Some 9" by simp_all
  with o l f have 2: "\<exists>out. simps_integrate trapezoid [Some 0, Some 1, Some 2]
         [[Some 2, Some 2, Some 2]] (Some [Some 5]) (Some [[Some 7, Some 8, Some 9]]) (Some 1)
           = Inr out
         \<and> length out = 1 \<and> length (out ! 0) = 3
         \<and> out ! 0 ! 0 = Some 7 \<and> out ! 0 ! 1 = Some 8 \<and> out ! 0 ! 2 = Some 9"
    by simp
  from increasing_012 1 2 show ?thesis by blast
qed

lemma integrate_example:
  "simps_integrate trapezoid [Some 0, Some 1, Some 2] [[Some 2, Some 2, Some 2]]
               (Some [Some 5]) None None = Inr [[Some 5, Some 7, Some 9]]"
  by (simp add: simps_integrate_def increasing_012 integrate_axis_def anchor_def
        adjust_row_at_def initial_at_def trapezoid_def cell_at_def add_cell_def
        upt_conv_Cons Let_def)

section \<open>Sign correction and gravity removal\<close>

text \<open>
  C6. When the sign test reports that the inversion is necessary, lines 97 to 99 replace
  every element of the accelerations and of the integrated velocities by its negation
  and change nothing else; when it reports that it is not, nothing changes.
\<close>

theorem sign_correction_negates:
  "(sign_inversion_is_necessary h (correct_velocities s) = Inr True \<longrightarrow>
      sign_correction h s =
        Inr (s\<lparr>accelerations := map (map (map_option uminus)) (accelerations s),
               correct_velocities := map (map (map_option uminus)) (correct_velocities s)\<rparr>))
   \<and> (sign_inversion_is_necessary h (correct_velocities s) = Inr False \<longrightarrow>
      sign_correction h s = Inr s)"
  by (simp add: sign_correction_def helper_def bind_res_def negate_def)

theorem sign_correction_negates_witness:
  "sign_inversion_is_necessary inverting_helpers (correct_velocities sample_locals) = Inr True
   \<and> sign_correction inverting_helpers sample_locals
       = Inr (sample_locals\<lparr>
           accelerations := [[Some (- 1), Some 2, Some (- 3), Some (- 4)],
                             [Some 0, Some 0, Some 0, Some 0],
                             [Some (- 9), Some (- 10), Some (- 11), Some (- 12)]],
           correct_velocities := [[Some (- 3), Some 1, Some 0, Some (- 2)],
                                  [Some 0, Some 0, Some 0, Some 0],
                                  [Some 0, Some 0, Some 0, Some 0]]\<rparr>)
   \<and> sign_inversion_is_necessary still_helpers (correct_velocities sample_locals) = Inr False
   \<and> sign_correction still_helpers sample_locals = Inr sample_locals"
proof -
  have t: "sign_inversion_is_necessary inverting_helpers (correct_velocities sample_locals)
             = Inr True"
    by (simp add: inverting_helpers_def)
  have f: "sign_inversion_is_necessary still_helpers (correct_velocities sample_locals)
             = Inr False"
    by (simp add: still_helpers_def)
  from sign_correction_negates [of inverting_helpers sample_locals] t
  have 1: "sign_correction inverting_helpers sample_locals
       = Inr (sample_locals\<lparr>
           accelerations := [[Some (- 1), Some 2, Some (- 3), Some (- 4)],
                             [Some 0, Some 0, Some 0, Some 0],
                             [Some (- 9), Some (- 10), Some (- 11), Some (- 12)]],
           correct_velocities := [[Some (- 3), Some 1, Some 0, Some (- 2)],
                                  [Some 0, Some 0, Some 0, Some 0],
                                  [Some 0, Some 0, Some 0, Some 0]]\<rparr>)"
    by (simp add: sample_locals_def)
  from sign_correction_negates [of still_helpers sample_locals] f
  have 2: "sign_correction still_helpers sample_locals = Inr sample_locals" by simp
  from t f 1 2 show ?thesis by simp
qed

lemma py_slice_nat:
  "py_slice xs (Some (int a)) (Some (int b)) = take (b - a) (drop a xs)"
  by (auto simp: py_slice_def slice_bound_def Let_def min_def)

text \<open>
  C7. With three rows of accelerations and a first stationary interval from \<open>start\<close> to
  \<open>stop\<close>, line 80 succeeds; it subtracts from every sample of the z row the mean of the
  z samples \<open>start\<close> to \<open>stop - 1\<close>, and leaves the x and y rows, the number of rows,
  the time vector and every other variable as they were.
\<close>

theorem remove_g_frame:
  assumes "3 \<le> length (accelerations s)" and "stationary_times s = (start, stop) # rest"
  shows "\<exists>s'. remove_g s = Inr s'
     \<and> accelerations s' ! 2 =
         map (\<lambda>v. sub_cell v (mean_cells (take (stop - start) (drop start (accelerations s ! 2)))))
           (accelerations s ! 2)
     \<and> accelerations s' ! 0 = accelerations s ! 0
     \<and> accelerations s' ! 1 = accelerations s ! 1
     \<and> length (accelerations s') = length (accelerations s)
     \<and> (\<forall>k. k \<noteq> 2 \<longrightarrow> accelerations s' ! k = accelerations s ! k)
     \<and> times_arr s' = times_arr s
     \<and> s'\<lparr>accelerations := accelerations s\<rparr> = s"
  using assms by (simp add: remove_g_def Let_def py_slice_nat)

theorem remove_g_frame_witness:
  "3 \<le> length (accelerations sample_locals)
   \<and> stationary_times sample_locals = (0, 2) # []
   \<and> (\<exists>s'. remove_g sample_locals = Inr s'
         \<and> accelerations s' ! 2 = [Some (- 1 / 2), Some (1 / 2), Some (3 / 2), Some (5 / 2)]
         \<and> accelerations s' ! 0 = [Some 1, Some (- 2), Some 3, Some 4]
         \<and> accelerations s' ! 1 = [Some 0, Some 0, Some 0, Some 0]
         \<and> length (accelerations s') = 3
         \<and> times_arr s' = [Some 0, Some 1, Some 2, Some 3])"
proof -
  have n: "3 \<le> length (accelerations sample_locals)"
    by (simp add: sample_locals_def)
  have st: "stationary_times sample_locals = (0, 2) # []"
    by (simp add: sample_locals_def)
  from remove_g_frame [OF n st] obtain s' where r: "remove_g sample_locals = Inr s'"
    and z: "accelerations s' ! 2 =
         map (\<lambda>v. sub_cell v (mean_cells (take (2 - 0) (drop 0 (accelerations sample_locals ! 2)))))
           (accelerations sample_locals ! 2)"
    and x: "accelerations s' ! 0 = accelerations sample_locals ! 0"
    and y: "accelerations s' ! 1 = accelerations sample_locals ! 1"
    and l: "length (accelerations s') = length (accelerations sample_locals)"
    and t: "times_arr s' = times_arr sample_locals"
    by blast
  from z have z': "accelerations s' ! 2
      = [Some (- 1 / 2), Some (1 / 2), Some (3 / 2), Some (5 / 2)]"
    by (simp add: sample_locals_def mean_cells_def sub_cell_def)
  from r z' x y l t n st show ?thesis by (simp add: sample_locals_def)
qed

section \<open>Trimming by the window\<close>

lemma length_trim_ends: "length (trim_ends w xs) = length xs - w"
  by (simp add: trim_ends_def)

lemma length_moving_average: "length (moving_average w row) = length row - w"
  by (simp add: moving_average_def)






section \<open>The stationary times\<close>

text \<open>
  The detector on the test of section 8 of the specification: a speed of zero at the
  indices 10 to 49 and above the threshold elsewhere gives the one interval [10, 50).
\<close>

lemma runs_below_skip:
  "\<not> p x \<Longrightarrow> runs_below p (replicate n x @ ys) i None = runs_below p ys (i + n) None"
  by (induction n arbitrary: i) simp_all

lemma runs_below_stay:
  "p x \<Longrightarrow> runs_below p (replicate n x @ ys) i (Some s) = runs_below p ys (i + n) (Some s)"
  by (induction n arbitrary: i) simp_all

lemma stationary_example:
  "get_stationary_times (1 / 5) 5
     (replicate 10 (Some 1) @ replicate 40 (Some 0) @ replicate 10 (Some 1)) = Inr [(10, 50)]"
proof -
  let ?p = "\<lambda>v. less_cell v (Some (1 / 5))"
  have one: "\<not> ?p (Some 1)" and zero: "?p (Some 0)" by (simp_all add: less_cell_def)
  have "runs_below ?p (replicate 10 (Some 1) @ replicate 40 (Some 0) @ replicate 10 (Some 1)) 0 None
      = runs_below ?p (replicate 40 (Some 0) @ replicate 10 (Some 1)) 10 None"
    using runs_below_skip [of ?p "Some 1" 10 _ 0, OF one] by simp
  also have "\<dots> = runs_below ?p (replicate 39 (Some 0) @ replicate 10 (Some 1)) 11 (Some 10)"
    using zero by (simp add: numeral_eq_Suc)
  also have "\<dots> = runs_below ?p (replicate 10 (Some 1)) 50 (Some 10)"
    using runs_below_stay [of ?p "Some 0" 39 _ 11 10, OF zero] by simp
  also have "\<dots> = (10, 50) # runs_below ?p (replicate 9 (Some 1) @ []) 51 None"
    using one by (simp add: numeral_eq_Suc)
  also have "\<dots> = [(10, 50)]"
    using runs_below_skip [of ?p "Some 1" 9 "[]" 51, OF one] by simp
  finally show ?thesis
    by (simp add: get_stationary_times_def qualifying_intervals_def)
qed

text \<open>
  C3. When lines 45 to 66 succeed and no run of speeds below the threshold reaches the
  minimum duration, \<open>get_positions_times\<close> fails with StationaryNotFoundError.
\<close>

theorem no_stationary_interval_fails:
  assumes "prepare h path df = Inr s"
    and "qualifying_intervals (speed_threshold h) (minimum_duration h) (real_speeds s) = []"
  shows "get_positions_times h path df = Inl StationaryNotFoundError"
  using assms
  by (simp add: get_positions_times_def bind_res_def find_stationary_def
        get_stationary_times_def)

lemma moving_prepared:
  "\<exists>s. prepare moving_helpers ''unmodified-fullinertial.tsv'' recording = Inr s
     \<and> real_speeds s = [Some 1, Some 1]"
  by (simp add: prepare_defs moving_fields)

theorem no_stationary_interval_fails_witness:
  "(\<exists>s. prepare moving_helpers ''unmodified-fullinertial.tsv'' recording = Inr s
       \<and> qualifying_intervals (speed_threshold moving_helpers)
            (minimum_duration moving_helpers) (real_speeds s) = [])
   \<and> get_positions_times moving_helpers ''unmodified-fullinertial.tsv'' recording
       = Inl StationaryNotFoundError"
proof -
  from moving_prepared obtain s
    where p: "prepare moving_helpers ''unmodified-fullinertial.tsv'' recording = Inr s"
      and v: "real_speeds s = [Some 1, Some 1]"
    by blast
  have q: "qualifying_intervals (speed_threshold moving_helpers)
             (minimum_duration moving_helpers) (real_speeds s) = []"
    by (simp add: v qualifying_intervals_def less_cell_def moving_fields)
  from no_stationary_interval_fails [OF p q] p q show ?thesis by blast
qed

section \<open>The shape of the result\<close>

lemma simps_integrate_shape:
  assumes "simps_integrate q t v i a f = Inr out"
  shows "map length out = map length v"
proof -
  from assms have "out = map (\<lambda>k. integrate_axis q t (v ! k) (initial_at i k)
                           (adjust_row_at a k) f) [0..<length v]"
    by (simp add: simps_integrate_def split: if_splits)
  then have "map length out = map (\<lambda>k. length (v ! k)) [0..<length v]"
    by (simp add: length_integrate_axis o_def)
  also have "\<dots> = map length v"
    by (rule nth_equalityI) simp_all
  finally show ?thesis .
qed

lemma columns_T_shape:
  "columns_T df names = Inr a \<Longrightarrow> map length a = replicate (length names) (length (rows df))"
  by (auto simp: columns_T_def Let_def map_replicate_const o_def split: if_splits)

lemma column_length: "column df name = Inr t \<Longrightarrow> length t = length (rows df)"
  by (auto simp: column_def split: option.splits)

lemma get_vectors_unmod_aligned:
  assumes "get_vectors ip df UNMOD_FULLINERTIAL = Inr (Some (Fullinertial t c alt v a g))"
  shows "map length a = replicate 3 (length t)"
proof -
  from assms obtain df' where a: "columns_T df' [''ax'', ''ay'', ''az''] = Inr a"
    and t: "column df' ''timestamp'' = Inr t"
    unfolding get_vectors_def Let_def
    by (simp add: bind_res_Inr) blast
  from columns_T_shape [OF a] column_length [OF t] show ?thesis
    by (simp add: numeral_3_eq_3)
qed

lemma parse_unpack_aligned:
  assumes "parse_input ip path df [UNMOD_FULLINERTIAL] None None = Inr parsed"
    and "unpack parsed = Inr s0"
  shows "aligned s0"
proof -
  from assms(1) obtain df' where g: "get_vectors ip df' UNMOD_FULLINERTIAL = Inr parsed"
    by (auto simp: parse_input_def Let_def split: if_splits)
  from assms(2) obtain t c alt v a g' where p: "parsed = Some (Fullinertial t c alt v a g')"
    and s0: "accelerations s0 = a" "times_arr s0 = t"
    by (cases parsed rule: unpack.cases) auto
  from get_vectors_unmod_aligned [OF g [unfolded p]] s0 show ?thesis
    by (simp add: aligned_def)
qed


lemma sp_convert:
  assumes "shape_preserving h" and "converts_measurement_units h a g v c = Inr (a', g', v', c')"
  shows "map length a' = map length a"
proof -
  from assms(1) have "\<forall>a g v c a' g' v' c'.
      converts_measurement_units h a g v c = Inr (a', g', v', c')
        \<longrightarrow> map length a' = map length a"
    unfolding shape_preserving_def by (rule conjunct1)
  then have "converts_measurement_units h a g v c = Inr (a', g', v', c')
        \<longrightarrow> map length a' = map length a"
    by (elim allE)
  with assms(2) show ?thesis by (rule mp [rotated])
qed

lemma sp_normalize:
  "shape_preserving h \<Longrightarrow> normalize_timestamp h t = Inr t' \<Longrightarrow> length t' = length t"
  by (simp add: shape_preserving_def)

lemma sp_z:
  assumes "shape_preserving h" and "correct_z_orientation h a g st = Inr (a', g')"
  shows "map length a' = map length a"
proof -
  from assms(1) have "\<forall>a g st a' g'. correct_z_orientation h a g st = Inr (a', g')
          \<longrightarrow> map length a' = map length a"
    unfolding shape_preserving_def by (elim conjE)
  then have "correct_z_orientation h a g st = Inr (a', g') \<longrightarrow> map length a' = map length a"
    by (elim allE)
  with assms(2) show ?thesis by (rule mp [rotated])
qed

lemma sp_xy:
  "shape_preserving h \<Longrightarrow> correct_xy_orientation h a g = Inr a'
     \<Longrightarrow> map length a' = map length a"
  by (simp add: shape_preserving_def)

lemma sp_rotate:
  "shape_preserving h \<Longrightarrow> rotate_accelerations h t a g = Inr a'
     \<Longrightarrow> map length a' = map length a"
  by (simp add: shape_preserving_def)

lemma sp_align:
  "shape_preserving h \<Longrightarrow> align_to_world h p a st = Inr a'
     \<Longrightarrow> map length a' = map length a"
  by (simp add: shape_preserving_def)

lemma convert_units_aligned:
  "shape_preserving h \<Longrightarrow> convert_units h a = Inr b \<Longrightarrow> aligned a \<Longrightarrow> aligned b"
  by (auto simp: convert_units_def bind_res_Inr helper_Inr aligned_def dest: sp_convert)

lemma positions_from_gnss_aligned:
  "positions_from_gnss h a = Inr b \<Longrightarrow> aligned a \<Longrightarrow> aligned b"
  by (auto simp: positions_from_gnss_def bind_res_Inr helper_Inr aligned_def)

lemma reduce_accelerations_aligned:
  "reduce_accelerations a = Inr b \<Longrightarrow> aligned a \<Longrightarrow> aligned b"
proof -
  assume r: "reduce_accelerations a = Inr b" and al: "aligned a"
  from r have t: "length (times_arr b) = length (times_arr a) - window_size"
    and acc: "accelerations b = map (moving_average window_size) (accelerations a)"
    by (auto simp: reduce_accelerations_def reduce_disturbance_def length_trim_ends)
  from acc have "map length (accelerations b)
        = map (\<lambda>n. n - window_size) (map length (accelerations a))"
    by (simp add: length_moving_average o_def)
  with al t show "aligned b" by (simp add: aligned_def)
qed

lemma reduce_angular_velocities_aligned:
  "reduce_angular_velocities a = Inr b \<Longrightarrow> aligned a \<Longrightarrow> aligned b"
  by (auto simp: reduce_angular_velocities_def reduce_disturbance_def aligned_def)

lemma truncate_gnss_aligned: "truncate_gnss a = Inr b \<Longrightarrow> aligned a \<Longrightarrow> aligned b"
  by (auto simp: truncate_gnss_def aligned_def)

lemma velocities_from_gnss_aligned:
  "velocities_from_gnss h a = Inr b \<Longrightarrow> aligned a \<Longrightarrow> aligned b"
  by (auto simp: velocities_from_gnss_def bind_res_Inr helper_Inr aligned_def)

lemma find_stationary_aligned:
  "find_stationary h a = Inr b \<Longrightarrow> aligned a \<Longrightarrow> aligned b"
  by (auto simp: find_stationary_def bind_res_Inr aligned_def)

lemma gyro_drift_aligned: "gyro_drift h a = Inr b \<Longrightarrow> aligned a \<Longrightarrow> aligned b"
  by (auto simp: gyro_drift_def bind_res_Inr helper_Inr aligned_def)

lemma normalize_times_aligned:
  "shape_preserving h \<Longrightarrow> normalize_times h a = Inr b \<Longrightarrow> aligned a \<Longrightarrow> aligned b"
  by (auto simp: normalize_times_def bind_res_Inr helper_Inr aligned_def dest: sp_normalize)

lemma z_orientation_aligned:
  "shape_preserving h \<Longrightarrow> z_orientation h a = Inr b \<Longrightarrow> aligned a \<Longrightarrow> aligned b"
  by (auto simp: z_orientation_def bind_res_Inr helper_Inr aligned_def dest: sp_z)

lemma remove_g_aligned:
  assumes "remove_g a = Inr b" and "aligned a"
  shows "aligned b"
proof -
  from assms(1) obtain r where b: "b = a\<lparr>accelerations := (accelerations a)[2 := r]\<rparr>"
    and r: "length r = length (accelerations a ! 2)" and n: "2 < length (accelerations a)"
    by (auto simp: remove_g_def Let_def split: if_splits list.splits)
  from n have "length (accelerations a ! 2) = map length (accelerations a) ! 2" by simp
  with r have "map length ((accelerations a)[2 := r]) = map length (accelerations a)"
    by (simp add: map_update)
  with assms(2) b show ?thesis by (simp add: aligned_def)
qed

lemma xy_orientation_aligned:
  "shape_preserving h \<Longrightarrow> xy_orientation h a = Inr b \<Longrightarrow> aligned a \<Longrightarrow> aligned b"
  by (auto simp: xy_orientation_def bind_res_Inr helper_Inr aligned_def dest: sp_xy)

lemma to_laboratory_aligned:
  "shape_preserving h \<Longrightarrow> to_laboratory h a = Inr b \<Longrightarrow> aligned a \<Longrightarrow> aligned b"
  by (auto simp: to_laboratory_def bind_res_Inr helper_Inr aligned_def dest: sp_rotate)

lemma to_world_aligned:
  "shape_preserving h \<Longrightarrow> to_world h a = Inr b \<Longrightarrow> aligned a \<Longrightarrow> aligned b"
  by (auto simp: to_world_def bind_res_Inr helper_Inr aligned_def dest: sp_align)

lemma before_aligned:
  assumes "shape_preserving h"
  shows "\<forall>f \<in> set (steps_before_stationary h). \<forall>a b. f a = Inr b \<longrightarrow> aligned a \<longrightarrow> aligned b"
  using convert_units_aligned [OF assms] positions_from_gnss_aligned
    reduce_accelerations_aligned reduce_angular_velocities_aligned truncate_gnss_aligned
    velocities_from_gnss_aligned
  unfolding steps_before_stationary_def by (simp (no_asm_simp))

lemma to_world_steps_aligned:
  assumes "shape_preserving h"
  shows "\<forall>f \<in> set [find_stationary h, gyro_drift h, normalize_times h, z_orientation h, remove_g, xy_orientation h,
      to_laboratory h, to_world h]. \<forall>a b. f a = Inr b \<longrightarrow> aligned a \<longrightarrow> aligned b"
  using find_stationary_aligned gyro_drift_aligned normalize_times_aligned [OF assms]
    z_orientation_aligned [OF assms] remove_g_aligned xy_orientation_aligned [OF assms]
    to_laboratory_aligned [OF assms] to_world_aligned [OF assms]
  by (simp (no_asm_simp))


lemma replicate_3: "replicate 3 x = [x, x, x]"
  by (simp add: numeral_3_eq_3)

lemma map_length_negate: "map length (negate a) = map length a"
  by (simp add: negate_def o_def)

text \<open>
  C1. When the helpers keep the shapes and \<open>get_positions_times\<close> returns, the position
  has three rows, each with as many samples as the time vector returned with it.
\<close>

theorem get_positions_times_shape:
  assumes sp: "shape_preserving h"
    and run: "get_positions_times h path df = Inr (position, ts)"
  shows "map length position = [length ts, length ts, length ts]"
proof -
  from run obtain s1 s where prep: "prepare h path df = Inr s1"
    and rest: "run_steps (find_stationary h # steps_after_stationary h) s1 = Inr s"
    and out: "position = correct_position s" "ts = times_arr s"
    by (auto simp: get_positions_times_def bind_res_Inr)
  from prep obtain parsed s0
    where p: "parse_input (interp h) path df [UNMOD_FULLINERTIAL] None None = Inr parsed"
      and u: "unpack parsed = Inr s0"
      and b: "run_steps (steps_before_stationary h) s0 = Inr s1"
    by (auto simp: prepare_def bind_res_Inr)
  have "aligned s0" by (rule parse_unpack_aligned [OF p u])
  with run_steps_invariant [OF before_aligned [OF sp] b] have a1: "aligned s1" .
  have split: "find_stationary h # steps_after_stationary h
      = [find_stationary h, gyro_drift h, normalize_times h, z_orientation h, remove_g,
         xy_orientation h, to_laboratory h, to_world h]
        @ [integrate_velocities h, sign_correction h, integrate_positions h]"
    by (simp add: steps_after_stationary_def)
  from rest obtain s2 s3 s4
    where w: "run_steps [find_stationary h, gyro_drift h, normalize_times h, z_orientation h,
                remove_g, xy_orientation h, to_laboratory h, to_world h] s1 = Inr s2"
      and iv: "integrate_velocities h s2 = Inr s3"
      and sc: "sign_correction h s3 = Inr s4"
      and ip: "integrate_positions h s4 = Inr s"
    unfolding split run_steps_append by (auto simp: bind_res_Inr)
  from run_steps_invariant [OF to_world_steps_aligned [OF sp] w a1] have a2: "aligned s2" .
  from iv have v3: "map length (correct_velocities s3) = map length (accelerations s2)"
    and t3: "times_arr s3 = times_arr s2"
    by (auto simp: integrate_velocities_def bind_res_Inr split: list.splits
          dest: simps_integrate_shape)
  from sc have v4: "map length (correct_velocities s4) = map length (correct_velocities s3)"
    and t4: "times_arr s4 = times_arr s3"
    by (auto simp: sign_correction_def bind_res_Inr map_length_negate split: if_splits)
  from ip have v5: "map length (correct_position s) = map length (correct_velocities s4)"
    and t5: "times_arr s = times_arr s4"
    by (auto simp: integrate_positions_def bind_res_Inr dest: simps_integrate_shape)
  from a2 v3 v4 v5 t3 t4 t5 out show ?thesis
    by (simp add: aligned_def replicate_3)
qed

theorem get_positions_times_shape_witness:
  "shape_preserving still_helpers
   \<and> get_positions_times still_helpers ''unmodified-fullinertial.tsv'' recording
       = Inr ([[Some 0, Some 0], [Some 0, Some 0], [Some 0, Some 0]], [Some 0, Some 1])
   \<and> map length [[Some (0::real), Some 0], [Some 0, Some 0], [Some 0, Some 0]]
       = [length [Some (0::real), Some 1], length [Some (0::real), Some 1],
          length [Some (0::real), Some 1]]"
  using get_positions_times_shape [OF still_shape_preserving still_run]
    still_shape_preserving still_run
  by simp

end
